theory Spec2Isabelle
  imports Main "HOL-Library.Word"
begin

section \<open>The voice-assistant backend: one request handler over three cloud services\<close>

text \<open>
  The program is a single Flask module. \<^verbatim>\<open>process_audio\<close> reads an uploaded clip,
  re-encodes it with pydub, sends it to the speech-recognition client, forwards the
  transcript to a long-lived chat session and returns the synthesised reply.

  The handler is embedded as a function from the request and the server state to the
  outcome of the view function and the new state. The library and cloud calls it makes
  are fields of a record of functions (\<open>services\<close>); each of them returns either the
  exception it raises (\<open>Inl\<close>) or its result (\<open>Inr\<close>).
\<close>

subsection \<open>Python values\<close>

type_synonym bytes = "8 word list"

text \<open>
  An exception object, as far as the handler looks at it: the handler only ever calls
  \<^verbatim>\<open>str(e)\<close>. The exceptions of the model are instances of \<^verbatim>\<open>Exception\<close>, which is what
  the library and cloud calls of the pipeline raise and what \<^verbatim>\<open>except Exception\<close> catches.
\<close>

datatype py_exn = PyException (str: string)

text \<open>
  \<^verbatim>\<open>s.split(c)\<close> for a one-character separator: the pieces between the separators, the
  empty string included; the result is never the empty list.
\<close>

fun str_split :: "string \<Rightarrow> char \<Rightarrow> string list" where
  "str_split [] sep = [[]]"
| "str_split (c # cs) sep =
     (if c = sep then [] # str_split cs sep
      else (c # hd (str_split cs sep)) # tl (str_split cs sep))"

text \<open>
  \<^verbatim>\<open>s.lower()\<close> on the ASCII range: the letters A to Z are mapped to a to z, every other
  character is left as it is. The trigger phrases of the action logger are ASCII.
\<close>

definition lower_char :: "char \<Rightarrow> char" where
  "lower_char c =
     (let n = (of_char c :: nat) in if 65 \<le> n \<and> n \<le> 90 then char_of (n + 32) else c)"

definition lower :: "string \<Rightarrow> string" where
  "lower s = map lower_char s"

text \<open>\<^verbatim>\<open>p in s\<close> for two strings: \<open>p\<close> occurs in \<open>s\<close> as a contiguous substring.\<close>

fun str_in :: "string \<Rightarrow> string \<Rightarrow> bool" where
  "str_in p [] = (p = [])"
| "str_in p (c # cs) = (take (length p) (c # cs) = p \<or> str_in p cs)"

subsection \<open>Requests and responses\<close>

text \<open>
  An uploaded file (werkzeug's \<^verbatim>\<open>FileStorage\<close>): what \<^verbatim>\<open>read()\<close> gives, which is the bytes
  or the exception the stream raises, and the content type that the upload declares
  for itself in its part of the form data (the empty string when it declares none).
\<close>

record file_storage =
  read :: "py_exn + bytes"
  declared_content_type :: string

text \<open>
  \<^verbatim>\<open>s.strip()\<close>: the white space at both ends is removed. On the ASCII range the
  white-space characters are the codes 9 to 13 and 28 to 32.
\<close>

definition is_space :: "char \<Rightarrow> bool" where
  "is_space c = (let n = (of_char c :: nat) in (9 \<le> n \<and> n \<le> 13) \<or> (28 \<le> n \<and> n \<le> 32))"

definition strip :: "string \<Rightarrow> string" where
  "strip s = rev (dropWhile is_space (rev (dropWhile is_space s)))"

text \<open>
  Modelled from the spec: the request audio is a byte buffer with a declared MIME type,
  and the format hint is derived from the declared content type. What the handler reads
  is the \<^verbatim>\<open>mimetype\<close> property of \<^verbatim>\<open>FileStorage\<close>, which belongs to the werkzeug library
  and is not part of the source file. The library documents it as the content type
  without its parameters and always in lower case: the declared value is cut at its
  first \<^verbatim>\<open>;\<close>, the part before it is stripped, and the result is lower-cased.
\<close>

definition mimetype :: "file_storage \<Rightarrow> string" where
  "mimetype f = lower (strip (takeWhile (\<lambda>c. c \<noteq> CHR '';'') (declared_content_type f)))"

record request =
  files :: "string \<rightharpoonup> file_storage"

text \<open>
  A response body is a JSON object (the dictionary given to \<^verbatim>\<open>jsonify\<close>, in the order
  of the literal; all values of this program are strings) or a byte stream
  (\<^verbatim>\<open>send_file\<close>).
\<close>

datatype body = Json "(string \<times> string) list" | File bytes

record response =
  status :: nat
  content_type :: string
  body :: body

definition jsonify :: "(string \<times> string) list \<Rightarrow> nat \<Rightarrow> response" where
  "jsonify obj code = \<lparr>status = code, content_type = ''application/json'', body = Json obj\<rparr>"

definition send_file :: "bytes \<Rightarrow> string \<Rightarrow> response" where
  "send_file content mt = \<lparr>status = 200, content_type = mt, body = File content\<rparr>"

subsection \<open>The speech, chat and synthesis interfaces\<close>

record recognition_config =
  encoding :: string
  sample_rate_hertz :: nat
  language_code :: string

record speech_recognition_alternative =
  transcript :: string

record speech_recognition_result =
  alternatives :: "speech_recognition_alternative list"

record recognize_response =
  results :: "speech_recognition_result list"

record voice_selection_params =
  voice_language_code :: string
  ssml_gender :: string

record audio_config =
  audio_encoding :: string

text \<open>One entry of the chat history: \<^verbatim>\<open>{"role": ..., "parts": ...}\<close>.\<close>

record turn =
  role :: string
  parts :: string

text \<open>
  The calls the handler makes, with \<open>'seg\<close> the type of a pydub \<^verbatim>\<open>AudioSegment\<close>:
  \<^item> \<open>from_file\<close>: \<^verbatim>\<open>AudioSegment.from_file(io.BytesIO(b), format=f)\<close>;
  \<^item> \<open>set_channels\<close>, \<open>set_frame_rate\<close>, \<open>set_sample_width\<close>: the three conversions;
  \<^item> \<open>export\<close>: \<^verbatim>\<open>seg.export(buffer, format=f)\<close>, giving the bytes written to the buffer;
  \<^item> \<open>recognize\<close>: \<^verbatim>\<open>speech_client.recognize(config=..., audio=...)\<close>;
  \<^item> \<open>generate_content\<close>: the remote chat completion for a history, giving the text of
    the reply (\<^verbatim>\<open>llm_response.text\<close>);
  \<^item> \<open>synthesize_speech\<close>: \<^verbatim>\<open>tts_client.synthesize_speech(...)\<close>, giving \<^verbatim>\<open>audio_content\<close>.
\<close>

record 'seg services =
  from_file :: "bytes \<Rightarrow> string \<Rightarrow> py_exn + 'seg"
  set_channels :: "'seg \<Rightarrow> nat \<Rightarrow> py_exn + 'seg"
  set_frame_rate :: "'seg \<Rightarrow> nat \<Rightarrow> py_exn + 'seg"
  set_sample_width :: "'seg \<Rightarrow> nat \<Rightarrow> py_exn + 'seg"
  export :: "'seg \<Rightarrow> string \<Rightarrow> py_exn + bytes"
  recognize :: "recognition_config \<Rightarrow> bytes \<Rightarrow> py_exn + recognize_response"
  generate_content :: "turn list \<Rightarrow> py_exn + string"
  synthesize_speech :: "string \<Rightarrow> voice_selection_params \<Rightarrow> audio_config \<Rightarrow> py_exn + bytes"

subsection \<open>The server state\<close>

text \<open>
  The calls to the decoder and to the three cloud services are recorded in the order
  they are made, with their arguments, whether they return or raise.
\<close>

datatype call =
    FromFile bytes string
  | Recognize recognition_config bytes
  | SendMessage string
  | SynthesizeSpeech string voice_selection_params audio_config

text \<open>
  The state a request can change: the history of the one chat session, the lines
  printed to the console (one entry for each \<^verbatim>\<open>print\<close>), and the record of calls.
\<close>

record server_state =
  history :: "turn list"
  console :: "string list"
  calls :: "call list"

definition print :: "string \<Rightarrow> server_state \<Rightarrow> server_state" where
  "print line w = w\<lparr>console := console w @ [line]\<rparr>"

definition record_call :: "call \<Rightarrow> server_state \<Rightarrow> server_state" where
  "record_call c w = w\<lparr>calls := calls w @ [c]\<rparr>"

definition SYSTEM_PROMPT :: string where
  \<open>SYSTEM_PROMPT =
     ''\<newline>'' @
     ''You are "Ross," a friendly and efficient AI assistant for "The Hungry Dragon" restaurant.\<newline>'' @
     ''Your primary goal is to help customers with orders, table bookings, and provide information about the restaurant and menu.\<newline>'' @
     ''\<newline>'' @
     ''**Here's the menu information:**\<newline>'' @
     ''* **Pizzas:** Pepperoni ($15), Margherita ($14), Veggie ($16)\<newline>'' @
     ''* **Pastas:** Spaghetti Carbonara ($12), Fettuccine Alfredo ($13)\<newline>'' @
     ''* **Salads:** Garden Salad ($10), Caesar Salad ($11)\<newline>'' @
     ''* **Special of the Day:** Dragon's Breath Chili ($18)\<newline>'' @
     ''* **Drinks:** Water ($2), Soda ($3), Juice ($4)\<newline>'' @
     ''\<newline>'' @
     ''**Restaurant Information:**\<newline>'' @
     ''* **Opening Hours:** 11:00 AM to 10:00 PM daily.\<newline>'' @
     ''* **Address:** 123 Main Street, Flavorville.\<newline>'' @
     ''* **Phone:** (555) 123-4567.\<newline>'' @
     ''* **Cuisine Type:** American with a fiery twist.\<newline>'' @
     ''* **Atmosphere:** Cozy, rustic, and family-friendly.\<newline>'' @
     ''\<newline>'' @
     ''**Booking Rules:**\<newline>'' @
     ''* You can book tables for groups of 1 to 10 people.\<newline>'' @
     ''* Always confirm date, time, and number of guests.\<newline>'' @
     ''* Be aware of busy times (7 PM - 9 PM are often fully booked). If busy, suggest alternative times.\<newline>'' @
     ''\<newline>'' @
     ''**Your Behavior:**\<newline>'' @
     ''* Be polite, helpful, and clear.\<newline>'' @
     ''* If you need more information (e.g., specific order items, booking details), politely ask clarifying questions.\<newline>'' @
     ''* When confirming an order or booking, summarize the details clearly.\<newline>'' @
     ''* If a customer tries to order something not on the menu, politely say "I'm sorry, that item is not on our menu."\<newline>'' @
     ''* Do not try to process payments. If a customer asks, say "You can pay at the counter when you pick up your order or after your meal."\<newline>'' @
     ''* Simulate actions: If an order or booking is confirmed, simply state that it has been "placed" or "confirmed" and print a message to the console on the backend server.\<newline>'' @
     ''\<newline>'' @
     ''**Examples of interactions:**\<newline>'' @
     ''* Customer: "I want to order a pizza." -> ChefBot: "Which pizza would you like? Pepperoni, Margherita, or Veggie?"\<newline>'' @
     ''* Customer: "Book a table for 4 tomorrow at 7 PM." -> ChefBot: "Okay, booking a table for 4 people for tomorrow at 7 PM. Is that correct?"\<newline>'' @
     ''* Customer: "What time do you close?" -> ChefBot: "We close at 10:00 PM daily."\<newline>''\<close>

definition greeting :: string where
  \<open>greeting = ''Hello! I'm ChefBot, your AI assistant for The Hungry Dragon restaurant. How can I help you today? Are you looking to order, book a table, or something else?''\<close>

text \<open>The history the chat session is started with, when the module is loaded.\<close>

definition initial_history :: "turn list" where
  "initial_history =
     [\<lparr>role = ''user'', parts = SYSTEM_PROMPT\<rparr>, \<lparr>role = ''model'', parts = greeting\<rparr>]"

definition initial_state :: server_state where
  "initial_state = \<lparr>history = initial_history, console = [], calls = []\<rparr>"

subsection \<open>The chat session\<close>

text \<open>
  Modelled from the spec: \<^verbatim>\<open>chat.send_message\<close> is a method of the chat-session class of
  the LLM client library, which is not part of the source file. The dialogue session
  "appends the user's transcript, invokes the remote chat-completion operation against
  the accumulated history, and appends the model's reply": the completion is asked for
  the history extended by the user turn, and when it returns the user turn and the
  model turn are both in the history. When the completion raises, the exception reaches
  the caller and the history is the one before the call.
\<close>

definition send_message ::
  "'seg services \<Rightarrow> string \<Rightarrow> server_state \<Rightarrow> (py_exn + string) \<times> server_state" where
  "send_message env content w =
     (let w1 = record_call (SendMessage content) w;
          user_turn = \<lparr>role = ''user'', parts = content\<rparr>
      in case generate_content env (history w1 @ [user_turn]) of
           Inl e \<Rightarrow> (Inl e, w1)
         | Inr reply \<Rightarrow>
             (Inr reply,
              w1\<lparr>history := history w1 @ [user_turn, \<lparr>role = ''model'', parts = reply\<rparr>]\<rparr>))"

subsection \<open>The steps of the pipeline\<close>

text \<open>
  The format given to the decoder: \<^verbatim>\<open>audio_file.mimetype.split('/')[-1]\<close>. The list of
  pieces is never empty, so the index \<^verbatim>\<open>[-1]\<close> is its last element.
\<close>

definition format_hint :: "string \<Rightarrow> string" where
  "format_hint mt = last (str_split mt (CHR ''/''))"

text \<open>
  Decoding and re-encoding: \<^verbatim>\<open>from_file\<close>, then one channel, 16000 Hz and two bytes a
  sample, then the export as WAV and the read of the whole buffer. The first call that
  raises ends the step.
\<close>

definition convert_audio ::
  "'seg services \<Rightarrow> bytes \<Rightarrow> string \<Rightarrow> server_state \<Rightarrow> (py_exn + bytes) \<times> server_state" where
  "convert_audio env audio_bytes fmt w =
     (let w1 = record_call (FromFile audio_bytes fmt) w in
      case from_file env audio_bytes fmt of
        Inl e \<Rightarrow> (Inl e, w1)
      | Inr seg0 \<Rightarrow>
     (case set_channels env seg0 1 of
        Inl e \<Rightarrow> (Inl e, w1)
      | Inr seg1 \<Rightarrow>
     (case set_frame_rate env seg1 16000 of
        Inl e \<Rightarrow> (Inl e, w1)
      | Inr seg2 \<Rightarrow>
     (case set_sample_width env seg2 2 of
        Inl e \<Rightarrow> (Inl e, w1)
      | Inr seg3 \<Rightarrow>
     (case export env seg3 ''wav'' of
        Inl e \<Rightarrow> (Inl e, w1)
      | Inr wav \<Rightarrow> (Inr wav, w1))))))"

definition config :: recognition_config where
  "config = \<lparr>encoding = ''LINEAR16'', sample_rate_hertz = 16000, language_code = ''en-US''\<rparr>"

text \<open>
  The loop over \<^verbatim>\<open>response.results\<close>, with \<open>customer_text\<close> the text accumulated so
  far. \<^verbatim>\<open>result.alternatives[0]\<close> raises \<^verbatim>\<open>IndexError\<close> on a result with no alternative.
\<close>

definition index_error :: py_exn where
  "index_error = PyException ''list index out of range''"

fun concat_transcripts :: "string \<Rightarrow> speech_recognition_result list \<Rightarrow> py_exn + string" where
  "concat_transcripts customer_text [] = Inr customer_text"
| "concat_transcripts customer_text (result # rest) =
     (case alternatives result of
        [] \<Rightarrow> Inl index_error
      | alt # _ \<Rightarrow> concat_transcripts (customer_text @ transcript alt) rest)"

definition speech_to_text ::
  "'seg services \<Rightarrow> bytes \<Rightarrow> server_state \<Rightarrow> (py_exn + string) \<times> server_state" where
  "speech_to_text env wav w =
     (let w1 = record_call (Recognize config wav) w in
      case recognize env config wav of
        Inl e \<Rightarrow> (Inl e, w1)
      | Inr resp \<Rightarrow> (concat_transcripts [] (results resp), w1))"

text \<open>The two checks of the reply, each printing at most one line.\<close>

definition order_line :: string where
  "order_line = ''--- Action: Food order placed! ---''"

definition booking_line :: string where
  "booking_line = ''--- Action: Table booking confirmed! ---''"

definition action_lines :: "string \<Rightarrow> string list" where
  "action_lines chefbot_text =
     (if str_in ''order placed'' (lower chefbot_text) then [order_line] else []) @
     (if str_in ''table confirmed'' (lower chefbot_text) \<or>
         str_in ''booking confirmed'' (lower chefbot_text)
      then [booking_line] else [])"

definition simulate_actions :: "string \<Rightarrow> server_state \<Rightarrow> server_state" where
  "simulate_actions chefbot_text w = w\<lparr>console := console w @ action_lines chefbot_text\<rparr>"

definition voice :: voice_selection_params where
  "voice = \<lparr>voice_language_code = ''en-US'', ssml_gender = ''FEMALE''\<rparr>"

definition mp3_config :: audio_config where
  "mp3_config = \<lparr>audio_encoding = ''MP3''\<rparr>"

definition text_to_speech ::
  "'seg services \<Rightarrow> string \<Rightarrow> server_state \<Rightarrow> (py_exn + bytes) \<times> server_state" where
  "text_to_speech env chefbot_text w =
     (synthesize_speech env chefbot_text voice mp3_config,
      record_call (SynthesizeSpeech chefbot_text voice mp3_config) w)"

subsection \<open>The handler\<close>

definition didnt_catch :: response where
  \<open>didnt_catch =
     jsonify [(''text'', ''I didn't catch that. Could you please repeat?''), (''audio'', '''')] 200\<close>

text \<open>
  The body of the \<^verbatim>\<open>try\<close> statement: \<open>Inl e\<close> when a call in it raises \<open>e\<close>, and
  the response it returns otherwise.
\<close>

definition try_body ::
  "'seg services \<Rightarrow> file_storage \<Rightarrow> bytes \<Rightarrow> server_state \<Rightarrow> (py_exn + response) \<times> server_state"
  where
  \<open>try_body env audio_file audio_bytes w =
     (case convert_audio env audio_bytes (format_hint (mimetype audio_file)) w of
        (Inl e, w1) \<Rightarrow> (Inl e, w1)
      | (Inr wav, w1) \<Rightarrow>
     (case speech_to_text env wav w1 of
        (Inl e, w2) \<Rightarrow> (Inl e, w2)
      | (Inr customer_text, w2) \<Rightarrow>
          if customer_text = [] then (Inr didnt_catch, w2)
          else
            (let w3 = print (''Customer said: "'' @ customer_text @ ''"'') w2 in
             case send_message env customer_text w3 of
               (Inl e, w4) \<Rightarrow> (Inl e, w4)
             | (Inr chefbot_text, w4) \<Rightarrow>
                 (let w5 = print (''ChefBot replied: "'' @ chefbot_text @ ''"'') w4;
                      w6 = simulate_actions chefbot_text w5
                  in case text_to_speech env chefbot_text w6 of
                       (Inl e, w7) \<Rightarrow> (Inl e, w7)
                     | (Inr audio_content, w7) \<Rightarrow>
                         (Inr (send_file audio_content ''audio/mpeg''), w7)))))\<close>

text \<open>
  The view function. Its outcome is the response it returns, or the exception that
  leaves it: the upload is read before the \<^verbatim>\<open>try\<close> statement is entered.
\<close>

definition process_audio ::
  "'seg services \<Rightarrow> request \<Rightarrow> server_state \<Rightarrow> (py_exn + response) \<times> server_state" where
  "process_audio env req w =
     (case files req ''audio'' of
        None \<Rightarrow> (Inr (jsonify [(''error'', ''No audio file provided'')] 400), w)
      | Some audio_file \<Rightarrow>
     (case read audio_file of
        Inl e \<Rightarrow> (Inl e, w)
      | Inr audio_bytes \<Rightarrow>
     (case try_body env audio_file audio_bytes w of
        (Inl e, w') \<Rightarrow>
          (Inr (jsonify [(''error'', str e)] 500), print (''An error occurred: '' @ str e) w')
      | (Inr resp, w') \<Rightarrow> (Inr resp, w'))))"

subsection \<open>Vocabulary of the properties\<close>

text \<open>
  The two shapes of a reply that the interface description names: a byte stream served
  as \<^verbatim>\<open>audio/mpeg\<close>, and a JSON object, of which \<open>json_fields\<close> lists the keys.
\<close>

definition is_audio_mpeg :: "response \<Rightarrow> bool" where
  "is_audio_mpeg r =
     (content_type r = ''audio/mpeg'' \<and> (case body r of File _ \<Rightarrow> True | Json _ \<Rightarrow> False))"

definition json_fields :: "response \<Rightarrow> string list" where
  "json_fields r = (case body r of Json obj \<Rightarrow> map fst obj | File _ \<Rightarrow> [])"


subsection \<open>Example requests and services\<close>

text \<open>Concrete inputs, on which the theorems below are evaluated.\<close>

definition clip :: bytes where
  "clip = [0x1A, 0x45, 0xDF, 0xA3]"

definition upload :: file_storage where
  "upload = \<lparr>read = Inr clip, declared_content_type = ''audio/webm''\<rparr>"

definition upload_request :: request where
  "upload_request = \<lparr>files = [''audio'' \<mapsto> upload]\<rparr>"

definition unreadable_request :: request where
  "unreadable_request =
     \<lparr>files = [''audio'' \<mapsto>
        \<lparr>read = Inl (PyException ''I/O operation on closed file.''),
         declared_content_type = ''audio/webm''\<rparr>]\<rparr>"

definition no_audio_request :: request where
  "no_audio_request = \<lparr>files = [''file'' \<mapsto> upload]\<rparr>"

definition opus_upload :: file_storage where
  "opus_upload = \<lparr>read = Inr clip, declared_content_type = ''audio/webm;codecs=opus''\<rparr>"

definition opus_request :: request where
  "opus_request = \<lparr>files = [''audio'' \<mapsto> opus_upload]\<rparr>"

definition order_reply :: string where
  "order_reply = ''Order placed. One Veggie pizza.''"

definition question_reply :: string where
  "question_reply = ''Which pizza would you like? Pepperoni, Margherita, or Veggie?''"

text \<open>
  Services that all return: the segment is the byte string itself, one result with two
  alternatives is recognised, and the reply confirms an order.
\<close>

definition working_services :: "bytes services" where
  "working_services =
     \<lparr>from_file = (\<lambda>b f. Inr b),
      set_channels = (\<lambda>s n. Inr s),
      set_frame_rate = (\<lambda>s n. Inr s),
      set_sample_width = (\<lambda>s n. Inr s),
      export = (\<lambda>s f. Inr s),
      recognize = (\<lambda>c a. Inr \<lparr>results =
        [\<lparr>alternatives = [\<lparr>transcript = ''one pizza''\<rparr>, \<lparr>transcript = ''won pizza''\<rparr>]\<rparr>]\<rparr>),
      generate_content = (\<lambda>h. Inr order_reply),
      synthesize_speech = (\<lambda>t v a. Inr [0x49, 0x44, 0x33])\<rparr>"

definition unavailable :: py_exn where
  "unavailable = PyException ''503 Service Unavailable''"

definition stt_down_services :: "bytes services" where
  "stt_down_services = working_services\<lparr>recognize := (\<lambda>c a. Inl unavailable)\<rparr>"

definition tts_down_services :: "bytes services" where
  "tts_down_services = working_services\<lparr>synthesize_speech := (\<lambda>t v a. Inl unavailable)\<rparr>"

definition silence_services :: "bytes services" where
  "silence_services = working_services\<lparr>recognize := (\<lambda>c a. Inr \<lparr>results = []\<rparr>)\<rparr>"

text \<open>
  A decoder that knows the format \<^verbatim>\<open>webm\<close> only, and one that decodes nothing.
\<close>

definition couldnt_decode :: py_exn where
  "couldnt_decode = PyException ''Decoding failed. ffmpeg returned error code: 1''"

definition webm_only_services :: "bytes services" where
  "webm_only_services =
     working_services\<lparr>from_file := (\<lambda>b f. if f = ''webm'' then Inr b else Inl couldnt_decode)\<rparr>"

definition decoder_down_services :: "bytes services" where
  "decoder_down_services = working_services\<lparr>from_file := (\<lambda>b f. Inl couldnt_decode)\<rparr>"

section \<open>Lemmas about the steps\<close>

lemmas step_defs = convert_audio_def speech_to_text_def send_message_def text_to_speech_def
  simulate_actions_def print_def record_call_def

lemmas handler_defs = process_audio_def try_body_def step_defs Let_def jsonify_def send_file_def
  didnt_catch_def

lemmas example_defs = upload_request_def working_services_def
  stt_down_services_def tts_down_services_def silence_services_def unavailable_def
  initial_state_def

subsection \<open>Splitting and searching strings\<close>

lemma str_split_not_Nil: "str_split s sep \<noteq> []"
  by (induction s) auto

lemma str_split_no_sep: "sep \<notin> set s \<Longrightarrow> str_split s sep = [s]"
  by (induction s) auto

lemma str_split_two_pieces: "sep \<in> set s \<Longrightarrow> tl (str_split s sep) \<noteq> []"
  by (induction s) (auto simp: str_split_not_Nil)

lemma last_str_split_after:
  "sep \<notin> set rest \<Longrightarrow> last (str_split (pre @ sep # rest) sep) = rest"
proof (induction pre)
  case Nil
  then show ?case by (simp add: str_split_no_sep)
next
  case (Cons x pre)
  let ?R = "str_split (pre @ sep # rest) sep"
  have two: "tl ?R \<noteq> []" by (rule str_split_two_pieces) simp
  have ne: "?R \<noteq> []" by (rule str_split_not_Nil)
  have "last (tl ?R) = last ?R" using two ne by (cases ?R) auto
  with Cons two ne show ?case by auto
qed

lemma takeWhile_no_sep: "sep \<notin> set xs \<Longrightarrow> takeWhile (\<lambda>c. c \<noteq> sep) xs = xs"
  by (induction xs) auto

lemma format_hint_after_last_slash:
  "format_hint mt = rev (takeWhile (\<lambda>c. c \<noteq> CHR ''/'') (rev mt))"
proof (cases "CHR ''/'' \<in> set mt")
  case False
  then show ?thesis by (simp add: format_hint_def str_split_no_sep takeWhile_no_sep)
next
  case True
  then obtain pre rest where mt: "mt = pre @ CHR ''/'' # rest" and rest: "CHR ''/'' \<notin> set rest"
    by (meson split_list_last)
  have "takeWhile (\<lambda>c. c \<noteq> CHR ''/'') (rev rest @ CHR ''/'' # rev pre) = rev rest"
    using rest by (auto simp: takeWhile_tail)
  then show ?thesis using rest by (simp add: format_hint_def mt last_str_split_after)
qed




subsection \<open>The mimetype of an upload\<close>

lemma lower_char_eq_iff:
  assumes "of_char d < (65 :: nat) \<or> (90 :: nat) < of_char d" and "of_char d < (97 :: nat)"
  shows "lower_char c = d \<longleftrightarrow> c = d"
proof
  assume eq: "lower_char c = d"
  show "c = d"
  proof (cases "65 \<le> (of_char c :: nat) \<and> (of_char c :: nat) \<le> 90")
    case False
    then show ?thesis using eq by (auto simp: lower_char_def Let_def)
  next
    case True
    then have "d = char_of ((of_char c :: nat) + 32)"
      using eq by (simp add: lower_char_def Let_def)
    then have "(of_char d :: nat) = ((of_char c :: nat) + 32) mod 256"
      by simp
    then have "(of_char d :: nat) = (of_char c :: nat) + 32"
      using True by simp
    then show ?thesis using True assms by linarith
  qed
next
  assume "c = d"
  then show "lower_char c = d"
    using assms by (auto simp: lower_char_def Let_def)
qed

lemma lower_char_slash: "lower_char c = CHR ''/'' \<longleftrightarrow> c = CHR ''/''"
  by (rule lower_char_eq_iff) simp_all

lemma lower_char_semicolon: "lower_char c = CHR '';'' \<longleftrightarrow> c = CHR '';''"
  by (rule lower_char_eq_iff) simp_all

lemma set_strip: "set (strip s) \<subseteq> set s"
proof -
  have "set (strip s) \<subseteq> set (dropWhile is_space s)"
    unfolding strip_def using set_dropWhileD by fastforce
  also have "\<dots> \<subseteq> set s"
    using set_dropWhileD by fastforce
  finally show ?thesis .
qed

lemma strip_no_space: "\<forall>c\<in>set s. \<not> is_space c \<Longrightarrow> strip s = s"
proof -
  assume a: "\<forall>c\<in>set s. \<not> is_space c"
  have d: "dropWhile is_space xs = xs" if "\<forall>c\<in>set xs. \<not> is_space c" for xs
    using that by (cases xs) auto
  show ?thesis
    using a by (simp add: strip_def d)
qed

lemma mimetype_no_semicolon: "CHR '';'' \<notin> set (mimetype f)"
proof
  assume "CHR '';'' \<in> set (mimetype f)"
  then obtain c
    where c: "c \<in> set (strip (takeWhile (\<lambda>c. c \<noteq> CHR '';'') (declared_content_type f)))"
      and l: "lower_char c = CHR '';''"
    by (auto simp: mimetype_def lower_def)
  from l have "c = CHR '';''" by (simp add: lower_char_semicolon)
  moreover from c have "c \<in> set (takeWhile (\<lambda>c. c \<noteq> CHR '';'') (declared_content_type f))"
    using set_strip by blast
  then have "c \<noteq> CHR '';''" by (rule set_takeWhileD [THEN conjunct2])
  ultimately show False by simp
qed

lemma format_hint_subset: "set (format_hint mt) \<subseteq> set mt"
proof -
  have "set (takeWhile (\<lambda>c. c \<noteq> CHR ''/'') (rev mt)) \<subseteq> set (rev mt)"
    using set_takeWhileD by fastforce
  then show ?thesis by (simp add: format_hint_after_last_slash)
qed

lemma not_space_slash: "\<not> is_space (CHR ''/'')"
  by (simp add: is_space_def)

lemma mimetype_of_parameterised:
  assumes d: "declared_content_type f = ty @ ''/'' @ sub @ '';'' @ params"
    and s: "CHR '';'' \<notin> set (ty @ sub)"
    and w: "\<forall>c\<in>set (ty @ sub). \<not> is_space c"
  shows "mimetype f = lower ty @ ''/'' @ lower sub"
proof -
  have "takeWhile (\<lambda>c. c \<noteq> CHR '';'') ((ty @ ''/'' @ sub) @ CHR '';'' # params) = ty @ ''/'' @ sub"
    using s by (intro takeWhile_tail [THEN trans] takeWhile_no_sep) auto
  then have t: "takeWhile (\<lambda>c. c \<noteq> CHR '';'') (declared_content_type f) = ty @ ''/'' @ sub"
    by (simp add: d)
  have "\<forall>c\<in>set (ty @ ''/'' @ sub). \<not> is_space c"
    using w not_space_slash by auto
  then have "strip (ty @ ''/'' @ sub) = ty @ ''/'' @ sub"
    by (rule strip_no_space)
  then have "mimetype f = lower (ty @ ''/'' @ sub)"
    by (simp add: mimetype_def t)
  moreover have "lower ''/'' = ''/''"
    by (simp add: lower_def lower_char_slash)
  ultimately show ?thesis by (simp add: lower_def)
qed

lemma hint_of_parameterised:
  assumes "declared_content_type f = ty @ ''/'' @ sub @ '';'' @ params"
    and "CHR '';'' \<notin> set (ty @ sub)"
    and "CHR ''/'' \<notin> set sub"
    and "\<forall>c\<in>set (ty @ sub). \<not> is_space c"
  shows "format_hint (mimetype f) = lower sub"
proof -
  have m: "mimetype f = lower ty @ CHR ''/'' # lower sub"
    using mimetype_of_parameterised [OF assms(1,2,4)] by simp
  have "CHR ''/'' \<notin> set (lower sub)"
  proof
    assume "CHR ''/'' \<in> set (lower sub)"
    then obtain c where c: "c \<in> set sub" and l: "lower_char c = CHR ''/''"
      by (auto simp: lower_def)
    from l have "c = CHR ''/''" by (simp add: lower_char_slash)
    with c assms(3) show False by simp
  qed
  then show ?thesis
    by (simp add: m format_hint_def last_str_split_after)
qed

subsection \<open>The loop over the results\<close>



subsection \<open>The state after a step\<close>

lemma convert_audio_state:
  "convert_audio env b fmt w = (r, w1) \<Longrightarrow> w1 = record_call (FromFile b fmt) w"
  by (auto simp: convert_audio_def Let_def split: sum.splits)

subsection \<open>Where the body of the try statement raises\<close>

text \<open>
  The body raises \<open>e\<close> exactly when one of its calls does, with every call before it
  having returned: the decoding and conversion, the recognition, the indexing of a
  result without alternatives, the chat completion, or the synthesis.
\<close>

lemma try_body_raise_sites:
  "fst (try_body env f b w) = Inl e \<longleftrightarrow>
     fst (convert_audio env b (format_hint (mimetype f)) w) = Inl e \<or>
     (\<exists>wav. fst (convert_audio env b (format_hint (mimetype f)) w) = Inr wav \<and>
        (recognize env config wav = Inl e \<or>
         (\<exists>resp. recognize env config wav = Inr resp \<and>
            (concat_transcripts [] (results resp) = Inl e \<or>
             (\<exists>t. concat_transcripts [] (results resp) = Inr t \<and> t \<noteq> [] \<and>
                (generate_content env (history w @ [\<lparr>role = ''user'', parts = t\<rparr>]) = Inl e \<or>
                 (\<exists>reply.
                    generate_content env (history w @ [\<lparr>role = ''user'', parts = t\<rparr>]) = Inr reply \<and>
                    synthesize_speech env reply voice mp3_config = Inl e)))))))"
  by (auto simp: try_body_def Let_def speech_to_text_def send_message_def text_to_speech_def
      simulate_actions_def print_def record_call_def
      split: sum.splits prod.splits if_splits dest!: convert_audio_state)

subsection \<open>The handler on the example requests\<close>

lemma read_upload: "read upload = Inr clip"
  by (simp add: upload_def)

lemma mimetype_upload: "mimetype upload = ''audio/webm''"
  by code_simp

lemma hint_upload: "format_hint (mimetype upload) = ''webm''"
  by (simp add: mimetype_upload format_hint_after_last_slash)

lemma read_opus_upload: "read opus_upload = Inr clip"
  by (simp add: opus_upload_def)

lemma mimetype_opus_upload: "mimetype opus_upload = ''audio/webm''"
  by code_simp

lemma hint_opus_upload: "format_hint (mimetype opus_upload) = ''webm''"
  by (simp add: mimetype_opus_upload format_hint_after_last_slash)

lemma action_lines_order_reply: "action_lines order_reply = [order_line]"
  by code_simp

lemma action_lines_question_reply: "action_lines question_reply = []"
  by code_simp



lemma working_run:
  \<open>process_audio working_services upload_request initial_state =
     (Inr (send_file [0x49, 0x44, 0x33] ''audio/mpeg''),
      \<lparr>history = initial_history @
         [\<lparr>role = ''user'', parts = ''one pizza''\<rparr>, \<lparr>role = ''model'', parts = order_reply\<rparr>],
       console = [''Customer said: "one pizza"'', ''ChefBot replied: "'' @ order_reply @ ''"'',
                  order_line],
       calls = [FromFile clip ''webm'', Recognize config clip, SendMessage ''one pizza'',
                SynthesizeSpeech order_reply voice mp3_config]\<rparr>)\<close>
  by (simp add: handler_defs example_defs read_upload hint_upload action_lines_order_reply)

lemma stt_down_run:
  "process_audio stt_down_services upload_request initial_state =
     (Inr (jsonify [(''error'', ''503 Service Unavailable'')] 500),
      \<lparr>history = initial_history,
       console = [''An error occurred: 503 Service Unavailable''],
       calls = [FromFile clip ''webm'', Recognize config clip]\<rparr>)"
  by (simp add: handler_defs example_defs read_upload hint_upload)

lemma tts_down_run:
  \<open>process_audio tts_down_services upload_request initial_state =
     (Inr (jsonify [(''error'', ''503 Service Unavailable'')] 500),
      \<lparr>history = initial_history @
         [\<lparr>role = ''user'', parts = ''one pizza''\<rparr>, \<lparr>role = ''model'', parts = order_reply\<rparr>],
       console = [''Customer said: "one pizza"'', ''ChefBot replied: "'' @ order_reply @ ''"'',
                  order_line, ''An error occurred: 503 Service Unavailable''],
       calls = [FromFile clip ''webm'', Recognize config clip, SendMessage ''one pizza'',
                SynthesizeSpeech order_reply voice mp3_config]\<rparr>)\<close>
  by (simp add: handler_defs example_defs read_upload hint_upload action_lines_order_reply)

lemma silence_run:
  "process_audio silence_services upload_request initial_state =
     (Inr didnt_catch,
      \<lparr>history = initial_history, console = [],
       calls = [FromFile clip ''webm'', Recognize config clip]\<rparr>)"
  by (simp add: process_audio_def try_body_def step_defs Let_def example_defs read_upload
      hint_upload)

lemma unreadable_run:
  "process_audio working_services unreadable_request initial_state =
     (Inl (PyException ''I/O operation on closed file.''), initial_state)"
  by (simp add: process_audio_def unreadable_request_def)

lemma opus_run:
  \<open>process_audio working_services opus_request initial_state =
     (Inr (send_file [0x49, 0x44, 0x33] ''audio/mpeg''),
      \<lparr>history = initial_history @
         [\<lparr>role = ''user'', parts = ''one pizza''\<rparr>, \<lparr>role = ''model'', parts = order_reply\<rparr>],
       console = [''Customer said: "one pizza"'', ''ChefBot replied: "'' @ order_reply @ ''"'',
                  order_line],
       calls = [FromFile clip ''webm'', Recognize config clip, SendMessage ''one pizza'',
                SynthesizeSpeech order_reply voice mp3_config]\<rparr>)\<close>
  by (simp add: handler_defs opus_request_def working_services_def initial_state_def
      read_opus_upload hint_opus_upload action_lines_order_reply)

lemma webm_only_run:
  "fst (process_audio webm_only_services opus_request initial_state) =
     Inr (send_file [0x49, 0x44, 0x33] ''audio/mpeg'')"
  by (simp add: handler_defs opus_request_def webm_only_services_def working_services_def
      read_opus_upload hint_opus_upload)

section \<open>Properties of the handler\<close>

subsection \<open>The shapes of a response\<close>

text \<open>
  C1, as amended. For a request with an \<^verbatim>\<open>audio\<close> field whose upload is read, the handler
  always returns a response. When the body of the \<^verbatim>\<open>try\<close> statement returns, the response
  has status 200 and is an \<^verbatim>\<open>audio/mpeg\<close> body or a JSON object with a \<^verbatim>\<open>text\<close> field. When
  a call in it raises \<open>e\<close>, the response is the JSON object \<^verbatim>\<open>{"error": str(e)}\<close> with
  status 500, which is neither of the two.
\<close>

theorem response_is_audio_text_or_error:
  assumes "files req ''audio'' = Some f" and "read f = Inr b"
  shows "\<exists>r. fst (process_audio env req w) = Inr r \<and>
     (case fst (try_body env f b w) of
        Inr _ \<Rightarrow> status r = 200 \<and> (is_audio_mpeg r \<or> ''text'' \<in> set (json_fields r))
      | Inl e \<Rightarrow> r = jsonify [(''error'', str e)] 500 \<and> \<not> is_audio_mpeg r \<and>
                 ''text'' \<notin> set (json_fields r))"
  using assms
  by (auto simp: process_audio_def try_body_def Let_def is_audio_mpeg_def json_fields_def
      didnt_catch_def jsonify_def send_file_def split: sum.splits prod.splits)

theorem response_is_audio_text_or_error_witness:
  "files upload_request ''audio'' = Some upload \<and> read upload = Inr clip \<and>
   (\<exists>r. fst (process_audio working_services upload_request initial_state) = Inr r \<and>
      (case fst (try_body working_services upload clip initial_state) of
         Inr _ \<Rightarrow> status r = 200 \<and> (is_audio_mpeg r \<or> ''text'' \<in> set (json_fields r))
       | Inl e \<Rightarrow> r = jsonify [(''error'', str e)] 500 \<and> \<not> is_audio_mpeg r \<and>
                  ''text'' \<notin> set (json_fields r)))"
proof -
  have f: "files upload_request ''audio'' = Some upload"
    by (simp add: upload_request_def)
  have r: "read upload = Inr clip"
    by (simp add: upload_def)
  show ?thesis
    using f r response_is_audio_text_or_error [OF f r, of working_services initial_state]
    by simp
qed

text \<open>
  The claim as it was stated fails on a readable upload for which the recognition
  service is down: the response is the 500 error object, which is not an
  \<^verbatim>\<open>audio/mpeg\<close> body and has no \<^verbatim>\<open>text\<close> field.
\<close>

theorem error_response_has_neither:
  "files upload_request ''audio'' = Some upload \<and> read upload = Inr clip \<and>
   fst (process_audio stt_down_services upload_request initial_state) =
     Inr \<lparr>status = 500, content_type = ''application/json'',
          body = Json [(''error'', ''503 Service Unavailable'')]\<rparr> \<and>
   \<not> is_audio_mpeg \<lparr>status = 500, content_type = ''application/json'',
          body = Json [(''error'', ''503 Service Unavailable'')]\<rparr> \<and>
   ''text'' \<notin> set (json_fields \<lparr>status = 500, content_type = ''application/json'',
          body = Json [(''error'', ''503 Service Unavailable'')]\<rparr>)"
proof -
  have "files upload_request ''audio'' = Some upload"
    by (simp add: upload_request_def)
  moreover have "read upload = Inr clip"
    by (simp add: upload_def)
  moreover have "fst (process_audio stt_down_services upload_request initial_state) =
     Inr \<lparr>status = 500, content_type = ''application/json'',
          body = Json [(''error'', ''503 Service Unavailable'')]\<rparr>"
    by (simp add: stt_down_run jsonify_def)
  ultimately show ?thesis
    by (simp add: is_audio_mpeg_def json_fields_def)
qed

subsection \<open>Exceptions\<close>

text \<open>
  C2, as amended. For a request with an \<^verbatim>\<open>audio\<close> field: when the upload is read and a
  call in the body of the \<^verbatim>\<open>try\<close> statement raises \<open>e\<close> (lemma \<open>try_body_raise_sites\<close>
  lists the calls), the handler prints the error line and returns status 500 with the
  body \<^verbatim>\<open>{"error": str(e)}\<close>. When reading the upload raises \<open>e\<close>, which happens before
  the \<^verbatim>\<open>try\<close> statement is entered, \<open>e\<close> leaves the handler and the state is untouched.
\<close>

theorem exceptions_in_try_are_caught:
  assumes "files req ''audio'' = Some f"
  shows "(\<forall>b e w1. read f = Inr b \<longrightarrow> try_body env f b w = (Inl e, w1) \<longrightarrow>
            process_audio env req w =
              (Inr \<lparr>status = 500, content_type = ''application/json'',
                     body = Json [(''error'', str e)]\<rparr>,
               print (''An error occurred: '' @ str e) w1)) \<and>
         (\<forall>e. read f = Inl e \<longrightarrow> process_audio env req w = (Inl e, w))"
  using assms by (auto simp: process_audio_def jsonify_def)

theorem exceptions_in_try_are_caught_witness:
  "files upload_request ''audio'' = Some upload \<and> read upload = Inr clip \<and>
   try_body stt_down_services upload clip initial_state =
     (Inl unavailable, record_call (Recognize config clip)
        (record_call (FromFile clip ''webm'') initial_state)) \<and>
   process_audio stt_down_services upload_request initial_state =
     (Inr \<lparr>status = 500, content_type = ''application/json'',
            body = Json [(''error'', str unavailable)]\<rparr>,
      print (''An error occurred: '' @ str unavailable)
        (record_call (Recognize config clip)
           (record_call (FromFile clip ''webm'') initial_state)))"
proof -
  have f: "files upload_request ''audio'' = Some upload"
    by (simp add: upload_request_def)
  have r: "read upload = Inr clip"
    by (simp add: upload_def)
  have t: "try_body stt_down_services upload clip initial_state =
     (Inl unavailable, record_call (Recognize config clip)
        (record_call (FromFile clip ''webm'') initial_state))"
    by (simp add: try_body_def convert_audio_def speech_to_text_def Let_def hint_upload
        stt_down_services_def working_services_def)
  from exceptions_in_try_are_caught [OF f, of stt_down_services initial_state] r t
  have "process_audio stt_down_services upload_request initial_state =
     (Inr \<lparr>status = 500, content_type = ''application/json'',
            body = Json [(''error'', str unavailable)]\<rparr>,
      print (''An error occurred: '' @ str unavailable)
        (record_call (Recognize config clip)
           (record_call (FromFile clip ''webm'') initial_state)))"
    by blast
  with f r t show ?thesis by simp
qed

text \<open>
  The claim as it was stated fails where reading the uploaded bytes raises: the
  exception is the outcome of the view function, and no response with status 500 is
  built by the handler.
\<close>

theorem read_failure_leaves_handler:
  "files unreadable_request ''audio'' \<noteq> None \<and>
   fst (process_audio working_services unreadable_request initial_state) =
     Inl (PyException ''I/O operation on closed file.'') \<and>
   fst (process_audio working_services unreadable_request initial_state) \<noteq>
     Inr (jsonify [(''error'', ''I/O operation on closed file.'')] 500)"
proof -
  have "files unreadable_request ''audio'' \<noteq> None"
    by (simp add: unreadable_request_def)
  then show ?thesis
    by (simp add: unreadable_run)
qed

subsection \<open>A request without the audio field\<close>

text \<open>
  C4. A request whose form data has no field named \<^verbatim>\<open>audio\<close> is answered with status
  400 and the body \<^verbatim>\<open>{"error": "No audio file provided"}\<close>. Whatever the services would
  do, the state is the one before the request: no call was made, nothing was printed
  and the history is untouched.
\<close>

theorem missing_audio_field:
  "files req ''audio'' = None \<Longrightarrow>
   process_audio env req w =
     (Inr \<lparr>status = 400, content_type = ''application/json'',
            body = Json [(''error'', ''No audio file provided'')]\<rparr>, w)"
  by (simp add: process_audio_def jsonify_def)

theorem missing_audio_field_witness:
  "files no_audio_request ''audio'' = None \<and>
   process_audio working_services no_audio_request initial_state =
     (Inr \<lparr>status = 400, content_type = ''application/json'',
            body = Json [(''error'', ''No audio file provided'')]\<rparr>, initial_state)"
  using missing_audio_field [of no_audio_request working_services initial_state]
  by (simp add: no_audio_request_def)

subsection \<open>The empty transcript\<close>

text \<open>
  C3. When the upload is read and converted, the recognition returns, and the
  concatenated transcript is the empty string, the handler answers with status 200
  and the JSON body \<^verbatim>\<open>{"text": "I didn't catch that. Could you please repeat?", "audio": ""}\<close>:
  there is no audio payload. The request stops there: the state afterwards differs from
  the one before only by the record of the decoder call and the recognition call.
\<close>

theorem empty_transcript_response:
  assumes "files req ''audio'' = Some f" and "read f = Inr b"
    and "fst (convert_audio env b (format_hint (mimetype f)) w) = Inr wav"
    and "recognize env config wav = Inr resp"
    and "concat_transcripts [] (results resp) = Inr []"
  shows \<open>process_audio env req w =
    (Inr \<lparr>status = 200, content_type = ''application/json'',
           body = Json [(''text'', ''I didn't catch that. Could you please repeat?''),
                        (''audio'', '''')]\<rparr>,
     w\<lparr>calls := calls w @ [FromFile b (format_hint (mimetype f)), Recognize config wav]\<rparr>)\<close>
  using assms
  by (auto simp: process_audio_def try_body_def Let_def didnt_catch_def jsonify_def step_defs
      split: sum.splits prod.splits option.splits if_splits)

theorem empty_transcript_response_witness:
  \<open>files upload_request ''audio'' = Some upload \<and> read upload = Inr clip \<and>
   fst (convert_audio silence_services clip (format_hint (mimetype upload)) initial_state) =
     Inr clip \<and>
   recognize silence_services config clip = Inr \<lparr>results = []\<rparr> \<and>
   concat_transcripts [] (results \<lparr>results = []\<rparr>) = Inr [] \<and>
   process_audio silence_services upload_request initial_state =
    (Inr \<lparr>status = 200, content_type = ''application/json'',
           body = Json [(''text'', ''I didn't catch that. Could you please repeat?''),
                        (''audio'', '''')]\<rparr>,
     initial_state\<lparr>calls := calls initial_state @
        [FromFile clip (format_hint (mimetype upload)), Recognize config clip]\<rparr>)\<close>
proof -
  have f: "files upload_request ''audio'' = Some upload"
    by (simp add: upload_request_def)
  have r: "read upload = Inr clip"
    by (simp add: upload_def)
  have c: "fst (convert_audio silence_services clip (format_hint (mimetype upload))
             initial_state) = Inr clip"
    by (simp add: convert_audio_def silence_services_def working_services_def)
  have s: "recognize silence_services config clip = Inr \<lparr>results = []\<rparr>"
    by (simp add: silence_services_def)
  have t: "concat_transcripts [] (results \<lparr>results = []\<rparr>) = Inr []"
    by simp
  show ?thesis
    using f r c s t empty_transcript_response [OF f r c s t]
    by simp
qed

text \<open>
  C8. A request that is answered with the \<^verbatim>\<open>text\<close> object is one whose transcript was
  empty, and it leaves the session alone: the history and the console are the ones
  before the request, and the only calls made are the decoding and the recognition.
  Neither \<^verbatim>\<open>chat.send_message\<close> nor \<^verbatim>\<open>synthesize_speech\<close> is called.
\<close>

theorem empty_transcript_frame:
  assumes "fst (process_audio env req w) = Inr r" and "''text'' \<in> set (json_fields r)"
  shows "history (snd (process_audio env req w)) = history w \<and>
    console (snd (process_audio env req w)) = console w \<and>
    (\<exists>b fmt wav resp.
       recognize env config wav = Inr resp \<and> concat_transcripts [] (results resp) = Inr [] \<and>
       calls (snd (process_audio env req w)) =
         calls w @ [FromFile b fmt, Recognize config wav])"
  using assms
  by (auto simp: process_audio_def try_body_def Let_def json_fields_def
      jsonify_def send_file_def step_defs
      split: sum.splits prod.splits option.splits if_splits)

theorem empty_transcript_frame_witness:
  "fst (process_audio silence_services upload_request initial_state) = Inr didnt_catch \<and>
   ''text'' \<in> set (json_fields didnt_catch) \<and>
   history (snd (process_audio silence_services upload_request initial_state)) =
     initial_history \<and>
   console (snd (process_audio silence_services upload_request initial_state)) = [] \<and>
   calls (snd (process_audio silence_services upload_request initial_state)) =
     [FromFile clip ''webm'', Recognize config clip]"
proof -
  have a: "fst (process_audio silence_services upload_request initial_state) = Inr didnt_catch"
    by (simp add: silence_run)
  have b: "''text'' \<in> set (json_fields didnt_catch)"
    by (simp add: json_fields_def didnt_catch_def jsonify_def)
  have c: "calls (snd (process_audio silence_services upload_request initial_state)) =
     [FromFile clip ''webm'', Recognize config clip]"
    by (simp add: silence_run)
  have i: "history initial_state = initial_history \<and> console initial_state = []"
    by (simp add: initial_state_def)
  have "history (snd (process_audio silence_services upload_request initial_state)) =
          history initial_state \<and>
        console (snd (process_audio silence_services upload_request initial_state)) =
          console initial_state"
    using empty_transcript_frame [OF a b] by blast
  then show ?thesis
    using a b c i by simp
qed

subsection \<open>The dialogue history\<close>

text \<open>
  C5. Before the first request the history is the pair the session is started with:
  the system prompt under the role \<^verbatim>\<open>user\<close> and the greeting under the role \<^verbatim>\<open>model\<close>.
  A successful request, one answered with the \<^verbatim>\<open>audio/mpeg\<close> body, makes the history
  longer by exactly two entries: a user turn with the transcript that was sent to the
  session, then a model turn with the reply that was given to the synthesis.
\<close>

theorem history_grows_by_two:
  assumes "fst (process_audio env req w) = Inr r" and "is_audio_mpeg r"
  shows "history initial_state =
           [\<lparr>role = ''user'', parts = SYSTEM_PROMPT\<rparr>, \<lparr>role = ''model'', parts = greeting\<rparr>] \<and>
         length (history (snd (process_audio env req w))) = length (history w) + 2 \<and>
         (\<exists>b fmt wav t reply.
            calls (snd (process_audio env req w)) =
              calls w @ [FromFile b fmt, Recognize config wav, SendMessage t,
                         SynthesizeSpeech reply voice mp3_config] \<and>
            history (snd (process_audio env req w)) =
              history w @ [\<lparr>role = ''user'', parts = t\<rparr>, \<lparr>role = ''model'', parts = reply\<rparr>])"
  using assms
  by (auto simp: process_audio_def try_body_def Let_def is_audio_mpeg_def initial_state_def
      initial_history_def didnt_catch_def jsonify_def send_file_def step_defs
      split: sum.splits prod.splits option.splits if_splits)

theorem history_grows_by_two_witness:
  "fst (process_audio working_services upload_request initial_state) =
     Inr (send_file [0x49, 0x44, 0x33] ''audio/mpeg'') \<and>
   is_audio_mpeg (send_file [0x49, 0x44, 0x33] ''audio/mpeg'') \<and>
   length (history (snd (process_audio working_services upload_request initial_state))) =
     length (history initial_state) + 2 \<and>
   history (snd (process_audio working_services upload_request initial_state)) =
     history initial_state @
       [\<lparr>role = ''user'', parts = ''one pizza''\<rparr>, \<lparr>role = ''model'', parts = order_reply\<rparr>]"
proof -
  have a: "fst (process_audio working_services upload_request initial_state) =
     Inr (send_file [0x49, 0x44, 0x33] ''audio/mpeg'')"
    by (simp add: working_run)
  have b: "is_audio_mpeg (send_file [0x49, 0x44, 0x33] ''audio/mpeg'')"
    by (simp add: is_audio_mpeg_def send_file_def)
  have h: "history (snd (process_audio working_services upload_request initial_state)) =
     history initial_state @
       [\<lparr>role = ''user'', parts = ''one pizza''\<rparr>, \<lparr>role = ''model'', parts = order_reply\<rparr>]"
    by (simp add: working_run) (simp add: initial_state_def)
  have "length (history (snd (process_audio working_services upload_request initial_state))) =
     length (history initial_state) + 2"
    using history_grows_by_two [OF a b] by blast
  then show ?thesis
    using a b h by simp
qed

text \<open>
  C9. When the chat call has returned and the synthesis then raises, the request is
  answered with the 500 error object, and the history holds the user turn and the
  model turn of this request: nothing in the handler takes them back.
\<close>

theorem failure_keeps_new_turns:
  assumes "files req ''audio'' = Some f" and "read f = Inr b"
    and "fst (convert_audio env b (format_hint (mimetype f)) w) = Inr wav"
    and "recognize env config wav = Inr resp"
    and "concat_transcripts [] (results resp) = Inr t" and "t \<noteq> []"
    and "generate_content env (history w @ [\<lparr>role = ''user'', parts = t\<rparr>]) = Inr reply"
    and "synthesize_speech env reply voice mp3_config = Inl e"
  shows "fst (process_audio env req w) = Inr (jsonify [(''error'', str e)] 500) \<and>
         history (snd (process_audio env req w)) =
           history w @ [\<lparr>role = ''user'', parts = t\<rparr>, \<lparr>role = ''model'', parts = reply\<rparr>]"
  using assms
  by (auto simp: process_audio_def try_body_def Let_def step_defs
      split: sum.splits prod.splits option.splits if_splits)

theorem failure_keeps_new_turns_witness:
  "fst (process_audio tts_down_services upload_request initial_state) =
     Inr (jsonify [(''error'', str unavailable)] 500) \<and>
   history (snd (process_audio tts_down_services upload_request initial_state)) =
     history initial_state @
       [\<lparr>role = ''user'', parts = ''one pizza''\<rparr>, \<lparr>role = ''model'', parts = order_reply\<rparr>]"
proof -
  have f: "files upload_request ''audio'' = Some upload"
    by (simp add: upload_request_def)
  have r: "read upload = Inr clip"
    by (simp add: upload_def)
  have c: "fst (convert_audio tts_down_services clip (format_hint (mimetype upload))
             initial_state) = Inr clip"
    by (simp add: convert_audio_def tts_down_services_def working_services_def)
  have s: "recognize tts_down_services config clip = Inr \<lparr>results =
        [\<lparr>alternatives = [\<lparr>transcript = ''one pizza''\<rparr>, \<lparr>transcript = ''won pizza''\<rparr>]\<rparr>]\<rparr>"
    by (simp add: tts_down_services_def working_services_def)
  have t: "concat_transcripts [] (results \<lparr>results =
        [\<lparr>alternatives = [\<lparr>transcript = ''one pizza''\<rparr>, \<lparr>transcript = ''won pizza''\<rparr>]\<rparr>]\<rparr>) =
        Inr ''one pizza''"
    by simp
  have n: "''one pizza'' \<noteq> []"
    by simp
  have g: "generate_content tts_down_services
             (history initial_state @ [\<lparr>role = ''user'', parts = ''one pizza''\<rparr>]) =
           Inr order_reply"
    by (simp add: tts_down_services_def working_services_def)
  have y: "synthesize_speech tts_down_services order_reply voice mp3_config = Inl unavailable"
    by (simp add: tts_down_services_def)
  show ?thesis
    by (rule failure_keeps_new_turns [OF f r c s t n g y])
qed

subsection \<open>The transcript\<close>



subsection \<open>The action logger\<close>



subsection \<open>The format given to the decoder\<close>

text \<open>
  C10, as amended. The format given to the decoder is the part of the upload's
  \<^verbatim>\<open>mimetype\<close> after its last \<^verbatim>\<open>/\<close>, and it never holds a \<^verbatim>\<open>;\<close>: the parameters of the
  declared content type are gone before the split. For a declared type made of a type,
  a \<^verbatim>\<open>/\<close>, a subtype and parameters after a \<^verbatim>\<open>;\<close> (no white space in type and subtype),
  the format is the lower-cased subtype alone. The decoder is called with the bytes of
  the upload and this format and with nothing else: when it raises there, the request
  is answered with the 500 error object, and the request does not depend on what the
  decoder would do with other arguments.
\<close>

theorem hint_is_bare_subtype:
  assumes "files req ''audio'' = Some f" and "read f = Inr b"
  shows "format_hint (mimetype f) = rev (takeWhile (\<lambda>c. c \<noteq> CHR ''/'') (rev (mimetype f))) \<and>
         CHR '';'' \<notin> set (format_hint (mimetype f)) \<and>
         (\<forall>ty sub params.
            declared_content_type f = ty @ ''/'' @ sub @ '';'' @ params \<longrightarrow>
            CHR '';'' \<notin> set (ty @ sub) \<longrightarrow> CHR ''/'' \<notin> set sub \<longrightarrow>
            (\<forall>c\<in>set (ty @ sub). \<not> is_space c) \<longrightarrow>
            format_hint (mimetype f) = lower sub) \<and>
         (\<forall>e. from_file env b (format_hint (mimetype f)) = Inl e \<longrightarrow>
            process_audio env req w =
              (Inr (jsonify [(''error'', str e)] 500),
               print (''An error occurred: '' @ str e)
                 (record_call (FromFile b (format_hint (mimetype f))) w))) \<and>
         (\<forall>g. g b (format_hint (mimetype f)) = from_file env b (format_hint (mimetype f)) \<longrightarrow>
            process_audio (env\<lparr>from_file := g\<rparr>) req w = process_audio env req w) \<and>
         (\<exists>cs. calls (snd (process_audio env req w)) =
            calls w @ FromFile b (format_hint (mimetype f)) # cs)"
proof (intro conjI allI impI)
  show "format_hint (mimetype f) = rev (takeWhile (\<lambda>c. c \<noteq> CHR ''/'') (rev (mimetype f)))"
    by (rule format_hint_after_last_slash)
  show "CHR '';'' \<notin> set (format_hint (mimetype f))"
    using format_hint_subset [of "mimetype f"] mimetype_no_semicolon [of f] by blast
next
  fix ty sub params
  assume "declared_content_type f = ty @ ''/'' @ sub @ '';'' @ params"
    and "CHR '';'' \<notin> set (ty @ sub)" and "CHR ''/'' \<notin> set sub"
    and "\<forall>c\<in>set (ty @ sub). \<not> is_space c"
  then show "format_hint (mimetype f) = lower sub"
    by (rule hint_of_parameterised)
next
  fix e
  assume "from_file env b (format_hint (mimetype f)) = Inl e"
  then show "process_audio env req w =
      (Inr (jsonify [(''error'', str e)] 500),
       print (''An error occurred: '' @ str e)
         (record_call (FromFile b (format_hint (mimetype f))) w))"
    using assms by (simp add: process_audio_def try_body_def convert_audio_def Let_def)
next
  fix g
  assume "g b (format_hint (mimetype f)) = from_file env b (format_hint (mimetype f))"
  then have c: "convert_audio (env\<lparr>from_file := g\<rparr>) b (format_hint (mimetype f)) w =
      convert_audio env b (format_hint (mimetype f)) w"
    by (simp add: convert_audio_def Let_def split: sum.splits)
  have s: "speech_to_text (env\<lparr>from_file := g\<rparr>) = speech_to_text env"
    by (intro ext) (simp add: speech_to_text_def)
  have m: "send_message (env\<lparr>from_file := g\<rparr>) = send_message env"
    by (intro ext) (simp add: send_message_def)
  have t: "text_to_speech (env\<lparr>from_file := g\<rparr>) = text_to_speech env"
    by (intro ext) (simp add: text_to_speech_def)
  have "try_body (env\<lparr>from_file := g\<rparr>) f b w = try_body env f b w"
    unfolding try_body_def c s m t by (rule refl)
  then show "process_audio (env\<lparr>from_file := g\<rparr>) req w = process_audio env req w"
    using assms by (simp add: process_audio_def)
next
  show "\<exists>cs. calls (snd (process_audio env req w)) =
            calls w @ FromFile b (format_hint (mimetype f)) # cs"
    using assms
    by (auto simp: process_audio_def try_body_def Let_def step_defs
      split: sum.splits prod.splits option.splits if_splits)
qed

theorem hint_is_bare_subtype_witness:
  "files opus_request ''audio'' = Some opus_upload \<and> read opus_upload = Inr clip \<and>
   declared_content_type opus_upload = ''audio'' @ ''/'' @ ''webm'' @ '';'' @ ''codecs=opus'' \<and>
   format_hint (mimetype opus_upload) = ''webm'' \<and>
   CHR '';'' \<notin> set (format_hint (mimetype opus_upload)) \<and>
   from_file decoder_down_services clip (format_hint (mimetype opus_upload)) =
     Inl couldnt_decode \<and>
   fst (process_audio decoder_down_services opus_request initial_state) =
     Inr (jsonify [(''error'', str couldnt_decode)] 500) \<and>
   from_file webm_only_services clip (format_hint (mimetype opus_upload)) =
     from_file working_services clip (format_hint (mimetype opus_upload)) \<and>
   process_audio (working_services\<lparr>from_file := from_file webm_only_services\<rparr>)
     opus_request initial_state =
     process_audio working_services opus_request initial_state \<and>
   (\<exists>cs. calls (snd (process_audio working_services opus_request initial_state)) =
      calls initial_state @ FromFile clip (format_hint (mimetype opus_upload)) # cs)"
proof -
  have f: "files opus_request ''audio'' = Some opus_upload"
    by (simp add: opus_request_def)
  have r: "read opus_upload = Inr clip"
    by (rule read_opus_upload)
  have d: "declared_content_type opus_upload =
      ''audio'' @ ''/'' @ ''webm'' @ '';'' @ ''codecs=opus''"
    by (simp add: opus_upload_def)
  have s: "CHR '';'' \<notin> set (''audio'' @ ''webm'')"
    by simp
  have n: "CHR ''/'' \<notin> set ''webm''"
    by simp
  have p: "\<forall>c\<in>set (''audio'' @ ''webm''). \<not> is_space c"
    by code_simp
  have l: "lower ''webm'' = ''webm''"
    by code_simp
  have x: "from_file decoder_down_services clip (format_hint (mimetype opus_upload)) =
      Inl couldnt_decode"
    by (simp add: decoder_down_services_def)
  have y: "from_file webm_only_services clip (format_hint (mimetype opus_upload)) =
      from_file working_services clip (format_hint (mimetype opus_upload))"
    by (simp add: webm_only_services_def working_services_def hint_opus_upload)
  note down = hint_is_bare_subtype [OF f r, of decoder_down_services initial_state]
  note work = hint_is_bare_subtype [OF f r, of working_services initial_state]
  from work d s n p have h: "format_hint (mimetype opus_upload) = lower ''webm''"
    by blast
  from work have c: "CHR '';'' \<notin> set (format_hint (mimetype opus_upload))"
    by blast
  from down x have e: "fst (process_audio decoder_down_services opus_request initial_state) =
      Inr (jsonify [(''error'', str couldnt_decode)] 500)"
    by simp
  from work y have i: "process_audio (working_services\<lparr>from_file := from_file webm_only_services\<rparr>)
      opus_request initial_state = process_audio working_services opus_request initial_state"
    by blast
  from work have k: "\<exists>cs. calls (snd (process_audio working_services opus_request initial_state)) =
      calls initial_state @ FromFile clip (format_hint (mimetype opus_upload)) # cs"
    by blast
  from h l have h': "format_hint (mimetype opus_upload) = ''webm''"
    by simp
  show ?thesis
    by (intro conjI f r d h' c x e y i k)
qed

text \<open>
  The claim as it was stated fails for an upload that declares
  \<^verbatim>\<open>audio/webm;codecs=opus\<close>: the format given to the decoder is \<^verbatim>\<open>webm\<close>, without the
  parameter, and a decoder that accepts no other format than \<^verbatim>\<open>webm\<close> decodes the
  upload.
\<close>

theorem declared_parameters_are_dropped:
  "files opus_request ''audio'' = Some opus_upload \<and>
   declared_content_type opus_upload = ''audio/webm;codecs=opus'' \<and>
   format_hint (mimetype opus_upload) = ''webm'' \<and>
   format_hint (mimetype opus_upload) \<noteq> ''webm;codecs=opus'' \<and>
   calls (snd (process_audio working_services opus_request initial_state)) =
     [FromFile clip ''webm'', Recognize config clip, SendMessage ''one pizza'',
      SynthesizeSpeech order_reply voice mp3_config] \<and>
   fst (process_audio webm_only_services opus_request initial_state) =
     Inr (send_file [0x49, 0x44, 0x33] ''audio/mpeg'')"
proof -
  have "files opus_request ''audio'' = Some opus_upload"
    by (simp add: opus_request_def)
  moreover have "declared_content_type opus_upload = ''audio/webm;codecs=opus''"
    by (simp add: opus_upload_def)
  moreover have "format_hint (mimetype opus_upload) \<noteq> ''webm;codecs=opus''"
    by (simp add: hint_opus_upload)
  moreover have "calls (snd (process_audio working_services opus_request initial_state)) =
     [FromFile clip ''webm'', Recognize config clip, SendMessage ''one pizza'',
      SynthesizeSpeech order_reply voice mp3_config]"
    by (simp add: opus_run)
  ultimately show ?thesis
    using hint_opus_upload webm_only_run by blast
qed

subsection \<open>The console of an answered request\<close>

text \<open>
  What a request answered with audio prints: the transcript, the reply, and then the
  lines of the action logger for that reply.
\<close>

lemma console_of_answered_request:
  assumes "fst (process_audio env req w) = Inr r" and "is_audio_mpeg r"
  shows \<open>\<exists>t reply. console (snd (process_audio env req w)) =
           console w @ [''Customer said: "'' @ t @ ''"'', ''ChefBot replied: "'' @ reply @ ''"''] @
           action_lines reply\<close>
  using assms
  by (auto simp: process_audio_def try_body_def Let_def is_audio_mpeg_def
      didnt_catch_def jsonify_def send_file_def step_defs
      split: sum.splits prod.splits option.splits if_splits)

end
